theory Spec2Isabelle
  imports Main
begin

section \<open>The gRPC error interceptor of \<open>internal/grpc/interceptor.go\<close>\<close>

text \<open>
  The file under verification holds one function with decision logic,
  \<open>convertToGRPCError\<close>, and the unary interceptor that calls it on the error
  path. Both are embedded below, line by line. They call four library
  operations, which are not part of the repository and are modelled from the
  behaviour of the Go standard library and of \<open>google.golang.org/grpc\<close>
  (version 1.55 and later, where the extractor also searches wrapped errors):
  \<open>errors.Is\<close>, \<open>errors.Unwrap\<close>, \<open>status.FromError\<close> and \<open>status.Error\<close>.
\<close>

subsection \<open>Status codes and status objects\<close>

text \<open>
  \<open>codes.Code\<close>: the seventeen named codes of \<open>google.golang.org/grpc/codes\<close>,
  in their numeric order (\<open>OK\<close> is 0, \<open>Unauthenticated\<close> is 16). The type is a
  \<open>uint32\<close> in Go; a status with a number above 16 is outside the model.
\<close>

datatype code =
    OK | Canceled | Unknown | InvalidArgument | DeadlineExceeded | NotFound
  | AlreadyExists | PermissionDenied | ResourceExhausted | FailedPrecondition
  | Aborted | OutOfRange | Unimplemented | Internal | Unavailable | DataLoss
  | Unauthenticated

text \<open>\<open>Code.String()\<close>, used by the text of a status error.\<close>

fun code_String :: "code \<Rightarrow> string" where
  "code_String OK = ''OK''"
| "code_String Canceled = ''Canceled''"
| "code_String Unknown = ''Unknown''"
| "code_String InvalidArgument = ''InvalidArgument''"
| "code_String DeadlineExceeded = ''DeadlineExceeded''"
| "code_String NotFound = ''NotFound''"
| "code_String AlreadyExists = ''AlreadyExists''"
| "code_String PermissionDenied = ''PermissionDenied''"
| "code_String ResourceExhausted = ''ResourceExhausted''"
| "code_String FailedPrecondition = ''FailedPrecondition''"
| "code_String Aborted = ''Aborted''"
| "code_String OutOfRange = ''OutOfRange''"
| "code_String Unimplemented = ''Unimplemented''"
| "code_String Internal = ''Internal''"
| "code_String Unavailable = ''Unavailable''"
| "code_String DataLoss = ''DataLoss''"
| "code_String Unauthenticated = ''Unauthenticated''"

text \<open>
  A non-nil \<open>*status.Status\<close>. \<open>Status c msg\<close> holds a protocol message with
  a code and a message text, as \<open>status.New(c, msg)\<close> builds it (the optional
  details of the protocol message play no part in the interceptor and are left
  out). \<open>EmptyStatus\<close> is the zero value \<open>&status.Status{}\<close>, which holds no
  protocol message: its methods \<open>Code()\<close> and \<open>Message()\<close> answer \<open>OK\<close> and
  the empty string, and its method \<open>Proto()\<close> answers nil.
\<close>

datatype status = Status (Code: code) (Message: string) | EmptyStatus
  where "Code EmptyStatus = OK" | "Message EmptyStatus = []"

text \<open>
  A panic of the Go runtime. The two places that can raise one here are both
  nil dereferences: the assignment \<open>p.Message = err.Error()\<close> inside
  \<open>status.FromError\<close>, when \<open>Proto()\<close> answered nil, and the call
  \<open>err.Error()\<close> on a nil interface value.
\<close>

datatype panic = NilPointerDereference

subsection \<open>Go error values\<close>

text \<open>
  The two sentinels of package \<open>context\<close> that the interceptor compares
  against, \<open>context.Canceled\<close> and \<open>context.DeadlineExceeded\<close>.
\<close>

datatype sentinel = context_Canceled | context_DeadlineExceeded

text \<open>
  What a \<open>GRPCStatus() *Status\<close> method of an error type gives: the type has
  no such method, or the method returns a status pointer, which may be nil.
\<close>

datatype grpcstatus = NoGRPCStatus | Returns "status option"

text \<open>
  The methods of an error value of any type other than the two sentinels:
  the text \<open>Error()\<close> returns, the sentinels for which the type's own
  \<open>Is(target)\<close> method answers true (none when the type has no \<open>Is\<close> method),
  and its \<open>GRPCStatus\<close> method.
\<close>

datatype methods =
  Methods (Error: string) (Is: "sentinel list") (GRPCStatus: grpcstatus)

text \<open>
  A non-nil value of the interface \<open>error\<close> is one of the sentinels, a value
  with no \<open>Unwrap\<close> method (\<open>Leaf\<close>), a value whose \<open>Unwrap() error\<close> returns
  the wrapped error (\<open>Wrap\<close>, as \<open>fmt.Errorf\<close> with one \<open>%w\<close> builds), or a
  value whose \<open>Unwrap() []error\<close> returns several (\<open>Join\<close>, as \<open>errors.Join\<close>
  builds). The nil interface value is \<open>None\<close> of \<open>error option\<close>.

  The values are finite trees and every method returns: a cyclic \<open>Unwrap\<close>, a
  method that panics and a custom \<open>As\<close> method are outside the model. An
  \<open>Unwrap\<close> that returns nil behaves as no \<open>Unwrap\<close> in everything below and
  is a \<open>Leaf\<close>; nil entries of an \<open>Unwrap() []error\<close> are skipped by the
  library and are left out of a \<open>Join\<close>.
\<close>

datatype error =
    Sentinel sentinel
  | Leaf methods
  | Wrap methods error
  | Join methods "error list"

text \<open>\<open>err.Error()\<close>.\<close>

fun Error_text :: "error \<Rightarrow> string" where
  "Error_text (Sentinel context_Canceled) = ''context canceled''"
| "Error_text (Sentinel context_DeadlineExceeded) = ''context deadline exceeded''"
| "Error_text (Leaf m) = Error m"
| "Error_text (Wrap m e) = Error m"
| "Error_text (Join m es) = Error m"

text \<open>The \<open>GRPCStatus\<close> method of the value itself (a type assertion).\<close>

fun GRPCStatus_of :: "error \<Rightarrow> grpcstatus" where
  "GRPCStatus_of (Sentinel s) = NoGRPCStatus"
| "GRPCStatus_of (Leaf m) = GRPCStatus m"
| "GRPCStatus_of (Wrap m e) = GRPCStatus m"
| "GRPCStatus_of (Join m es) = GRPCStatus m"

text \<open>
  \<open>errors.Is(err, target)\<close> for a sentinel target: a depth-first walk of the
  tree under \<open>err\<close>; a node matches when it is the target itself or when its
  \<open>Is\<close> method accepts the target.
\<close>

fun errors_Is :: "error \<Rightarrow> sentinel \<Rightarrow> bool" where
  "errors_Is (Sentinel s) target = (s = target)"
| "errors_Is (Leaf m) target = (target \<in> set (Is m))"
| "errors_Is (Wrap m e) target = (target \<in> set (Is m) \<or> errors_Is e target)"
| "errors_Is (Join m es) target =
     (target \<in> set (Is m) \<or> list_ex (\<lambda>e. errors_Is e target) es)"

text \<open>
  \<open>errors.Unwrap(err)\<close>: the result of the \<open>Unwrap() error\<close> method, nil for
  every value without one (also for a \<open>Join\<close>).
\<close>

fun errors_Unwrap :: "error \<Rightarrow> error option" where
  "errors_Unwrap (Wrap m e) = Some e"
| "errors_Unwrap (Sentinel s) = None"
| "errors_Unwrap (Leaf m) = None"
| "errors_Unwrap (Join m es) = None"

text \<open>
  \<open>errors.As(err, &gs)\<close> for the interface with the method \<open>GRPCStatus\<close>,
  followed by \<open>gs.GRPCStatus()\<close>: the first value of the tree, depth first,
  that has the method, and what the method returns there; \<open>None\<close> when no
  value of the tree has it.
\<close>

fun errors_As :: "error \<Rightarrow> status option option"
  and errors_As_first :: "error list \<Rightarrow> status option option" where
  "errors_As (Sentinel s) = None"
| "errors_As (Leaf m) =
     (case GRPCStatus m of NoGRPCStatus \<Rightarrow> None | Returns r \<Rightarrow> Some r)"
| "errors_As (Wrap m e) =
     (case GRPCStatus m of NoGRPCStatus \<Rightarrow> errors_As e | Returns r \<Rightarrow> Some r)"
| "errors_As (Join m es) =
     (case GRPCStatus m of NoGRPCStatus \<Rightarrow> errors_As_first es | Returns r \<Rightarrow> Some r)"
| "errors_As_first [] = None"
| "errors_As_first (e # es) =
     (case errors_As e of None \<Rightarrow> errors_As_first es | Some r \<Rightarrow> Some r)"

subsection \<open>The status library\<close>

text \<open>
  \<open>(*Status).Err()\<close> after \<open>status.New(c, msg)\<close>, that is \<open>status.Error(c, msg)\<close>:
  nil for the code \<open>OK\<close>, otherwise a \<open>*status.Error\<close>, a value without
  \<open>Unwrap\<close> whose \<open>GRPCStatus\<close> returns the status, whose \<open>Is\<close> accepts
  only other status errors, and whose text is built from code and message.
\<close>

definition status_Error :: "code \<Rightarrow> string \<Rightarrow> error option" where
  "status_Error c msg =
     (if c = OK then None
      else Some (Leaf (Methods
             (''rpc error: code = '' @ code_String c @ '' desc = '' @ msg)
             []
             (Returns (Some (Status c msg))))))"

text \<open>
  \<open>status.FromError(err)\<close>: nil is reported as found, with no status. A value
  with the method \<open>GRPCStatus\<close> gives the status the method returns, as it
  is. Otherwise the tree is searched with \<open>errors.As\<close>; of a status found below
  the top the library takes a copy of the protocol message
  (\<open>p := grpcStatus.Proto()\<close>), overwrites its message with the text of \<open>err\<close>
  (\<open>p.Message = err.Error()\<close>) and returns that as found. For a status without
  a protocol message \<open>p\<close> is nil and the assignment panics. A \<open>GRPCStatus\<close>
  that returns nil, and a tree without the method, give \<open>Unknown\<close> and
  not found.
\<close>

definition status_FromError :: "error option \<Rightarrow> panic + status option \<times> bool" where
  "status_FromError err =
     (case err of
        None \<Rightarrow> Inr (None, True)
      | Some e \<Rightarrow>
          (case GRPCStatus_of e of
             Returns None \<Rightarrow> Inr (Some (Status Unknown (Error_text e)), False)
           | Returns (Some grpcStatus) \<Rightarrow> Inr (Some grpcStatus, True)
           | NoGRPCStatus \<Rightarrow>
               (case errors_As e of
                  Some None \<Rightarrow> Inr (Some (Status Unknown (Error_text e)), False)
                | Some (Some grpcStatus) \<Rightarrow>
                    (case grpcStatus of
                       EmptyStatus \<Rightarrow> Inl NilPointerDereference
                     | Status c msg \<Rightarrow> Inr (Some (Status c (Error_text e)), True))
                | None \<Rightarrow> Inr (Some (Status Unknown (Error_text e)), False))))"

subsection \<open>Byte strings\<close>

text \<open>
  \<open>strings.HasPrefix\<close> and \<open>strings.Contains\<close> on Go strings, which are byte
  sequences, as \<open>string\<close> is.
\<close>

fun strings_HasPrefix :: "string \<Rightarrow> string \<Rightarrow> bool" where
  "strings_HasPrefix s [] = True"
| "strings_HasPrefix [] (c # prefix) = False"
| "strings_HasPrefix (b # s) (c # prefix) = (b = c \<and> strings_HasPrefix s prefix)"

fun strings_Contains :: "string \<Rightarrow> string \<Rightarrow> bool" where
  "strings_Contains [] substr = (substr = [])"
| "strings_Contains (b # s) substr =
     (strings_HasPrefix (b # s) substr \<or> strings_Contains s substr)"

subsection \<open>The classifier\<close>

text \<open>
  The loop of lines 126 to 138, \<open>for unwrappedErr != nil\<close>. \<open>Some r\<close>: the
  function returned \<open>r\<close> from inside the loop; \<open>None\<close>: the loop ended and
  control goes on below it.
\<close>

function unwrapLoop :: "error option \<Rightarrow> error option option" where
  "unwrapLoop None = None"
| "unwrapLoop (Some unwrappedErr) =
     (if errors_Is unwrappedErr context_Canceled
        then Some (status_Error Canceled ''request was canceled'')
      else if errors_Is unwrappedErr context_DeadlineExceeded
        then Some (status_Error DeadlineExceeded ''request deadline exceeded'')
      else unwrapLoop (errors_Unwrap unwrappedErr))"
  by pat_completeness auto
termination
proof (relation "measure (\<lambda>x. case x of None \<Rightarrow> 0 | Some e \<Rightarrow> Suc (size e))")
  show "wf (measure (\<lambda>x. case x of None \<Rightarrow> 0 | Some e \<Rightarrow> Suc (size e)))"
    by simp
next
  fix unwrappedErr :: error
  show "(errors_Unwrap unwrappedErr, Some unwrappedErr)
          \<in> measure (\<lambda>x. case x of None \<Rightarrow> 0 | Some e \<Rightarrow> Suc (size e))"
    by (cases unwrappedErr) simp_all
qed

text \<open>
  \<open>convertToGRPCError\<close>, lines 119 to 188. A panic inside \<open>status.FromError\<close>
  is a panic of the function. The debug log line between the loop and the text
  rules does not touch the result and is left out.
\<close>

definition convertToGRPCError :: "error option \<Rightarrow> panic + error option" where
  "convertToGRPCError err =
     (case status_FromError err of
        Inl p \<Rightarrow> Inl p
      | Inr (s, ok) \<Rightarrow>
          (if ok then Inr err
           else case unwrapLoop err of
             Some r \<Rightarrow> Inr r
           | None \<Rightarrow>
              (case err of
                 None \<Rightarrow> Inl NilPointerDereference
               | Some e \<Rightarrow>
                  (let errMsg = Error_text e in
                   if strings_Contains errMsg ''context canceled''
                     then Inr (status_Error Canceled ''request was canceled'')
                   else if strings_Contains errMsg ''context deadline exceeded''
                     then Inr (status_Error DeadlineExceeded ''request deadline exceeded'')
                   else if strings_Contains errMsg ''driver: bad connection'' \<or>
                           strings_Contains errMsg ''connection refused'' \<or>
                           strings_Contains errMsg ''connection reset'' \<or>
                           strings_Contains errMsg ''broken pipe''
                     then Inr (status_Error Unavailable ''database connection unavailable'')
                   else if strings_Contains errMsg ''booking already expired''
                     then Inr (status_Error FailedPrecondition ''booking already expired'')
                   else if strings_Contains errMsg ''reservation max retry exceeded''
                     then Inr (status_Error ResourceExhausted
                                 ''reservation max retry exceeded'')
                   else if strings_Contains errMsg ''booking release max retry exceeded''
                     then Inr (status_Error ResourceExhausted
                                 ''booking release max retry exceeded'')
                   else if strings_Contains errMsg ''class is sold out'' \<or>
                           strings_Contains errMsg ''no seat available''
                     then Inr (status_Error ResourceExhausted ''seats are not available'')
                   else if strings_Contains errMsg ''class is not available for sale''
                     then Inr (status_Error FailedPrecondition
                                 ''class is not available for sale'')
                   else if strings_Contains errMsg ''invalid input syntax for type uuid''
                     then Inr (status_Error InvalidArgument ''invalid UUID format'')
                   else Inr (status_Error Internal (Error_text e))))))"

text \<open>
  \<open>UnaryServerErrorInterceptor\<close>, lines 108 to 117: the function it returns,
  applied to its four arguments. The handler is a function of the context and
  the request that returns a response (an \<open>interface{}\<close>, possibly nil) and
  an error (possibly nil).
\<close>

definition UnaryServerErrorInterceptor ::
  "'ctx \<Rightarrow> 'req \<Rightarrow> 'info \<Rightarrow> ('ctx \<Rightarrow> 'req \<Rightarrow> 'resp option \<times> error option)
     \<Rightarrow> panic + ('resp option \<times> error option)" where
  "UnaryServerErrorInterceptor ctx req info handler =
     (case handler ctx req of
        (resp, err) \<Rightarrow>
          (case err of
             Some e \<Rightarrow>
               (case convertToGRPCError err of
                  Inl p \<Rightarrow> Inl p
                | Inr converted \<Rightarrow> Inr (None, converted))
           | None \<Rightarrow> Inr (resp, None)))"

subsection \<open>Vocabulary of the specification\<close>

text \<open>
  The unwrap chain of an error: the values the loop visits, by repeated
  \<open>errors.Unwrap\<close>.
\<close>

function chain :: "error option \<Rightarrow> error list" where
  "chain None = []"
| "chain (Some e) = e # chain (errors_Unwrap e)"
  by pat_completeness auto
termination
proof (relation "measure (\<lambda>x. case x of None \<Rightarrow> 0 | Some e \<Rightarrow> Suc (size e))")
  show "wf (measure (\<lambda>x. case x of None \<Rightarrow> 0 | Some e \<Rightarrow> Suc (size e)))"
    by simp
next
  fix e :: error
  show "(errors_Unwrap e, Some e)
          \<in> measure (\<lambda>x. case x of None \<Rightarrow> 0 | Some e \<Rightarrow> Suc (size e))"
    by (cases e) simp_all
qed

text \<open>
  The chain of \<open>e\<close> contains the sentinel: some link of the chain compares
  equal to it under the comparison the loop uses at every link, \<open>errors.Is\<close>.
\<close>

definition chain_contains :: "error \<Rightarrow> sentinel \<Rightarrow> bool" where
  "chain_contains e target = list_ex (\<lambda>link. errors_Is link target) (chain (Some e))"

text \<open>
  The error carries or derives from a status object: the extractor returns
  and reports one as found. The error is without a status object: the
  extractor returns and reports none. Where the extractor panics there is no
  report, and the error is neither.
\<close>

definition carries_status :: "error \<Rightarrow> bool" where
  "carries_status e =
     (case status_FromError (Some e) of Inl p \<Rightarrow> False | Inr (s, found) \<Rightarrow> found)"

definition without_status :: "error \<Rightarrow> bool" where
  "without_status e =
     (case status_FromError (Some e) of Inl p \<Rightarrow> False | Inr (s, found) \<Rightarrow> \<not> found)"

text \<open>
  The substrings of the text rules, in the order of the source: the twelve
  tested before the UUID rule, and all thirteen.
\<close>

definition substrings_before_uuid :: "string list" where
  "substrings_before_uuid =
     [''context canceled'', ''context deadline exceeded'',
      ''driver: bad connection'', ''connection refused'', ''connection reset'',
      ''broken pipe'', ''booking already expired'',
      ''reservation max retry exceeded'', ''booking release max retry exceeded'',
      ''class is sold out'', ''no seat available'',
      ''class is not available for sale'']"

definition listed_substrings :: "string list" where
  "listed_substrings = substrings_before_uuid @ [''invalid input syntax for type uuid'']"

definition contains_any :: "string \<Rightarrow> string list \<Rightarrow> bool" where
  "contains_any s substrs = list_ex (strings_Contains s) substrs"

text \<open>
  The pair \<open>classify\<close> of the specification: code and message that
  \<open>status.FromError\<close> reads off the error that \<open>convertToGRPCError\<close> returns;
  \<open>None\<close> when the call panics, returns nil or returns an error without a
  status.
\<close>

definition classify :: "error \<Rightarrow> (code \<times> string) option" where
  "classify e =
     (case convertToGRPCError (Some e) of
        Inl p \<Rightarrow> None
      | Inr None \<Rightarrow> None
      | Inr (Some r) \<Rightarrow>
          (case status_FromError (Some r) of
             Inl p \<Rightarrow> None
           | Inr (Some s, found) \<Rightarrow> (if found then Some (Code s, Message s) else None)
           | Inr (None, found) \<Rightarrow> None))"

text \<open>The seven codes of the rule set.\<close>

definition rule_codes :: "code list" where
  "rule_codes = [Canceled, DeadlineExceeded, InvalidArgument, FailedPrecondition,
                 ResourceExhausted, Unavailable, Internal]"

section \<open>Properties\<close>

subsection \<open>The library model\<close>

text \<open>\<open>strings_Contains\<close> is the substring relation on byte strings.\<close>

lemma strings_HasPrefix_iff: "strings_HasPrefix s p \<longleftrightarrow> (\<exists>ss. s = p @ ss)"
  by (induction s p rule: strings_HasPrefix.induct) auto

lemma strings_Contains_iff: "strings_Contains s substr \<longleftrightarrow> (\<exists>ps ss. s = ps @ substr @ ss)"
proof (induction s)
  case Nil
  show ?case by auto
next
  case (Cons b s)
  have "(\<exists>ps ss. b # s = ps @ substr @ ss) \<longleftrightarrow>
        (\<exists>ss. b # s = substr @ ss) \<or> (\<exists>ps ss. s = ps @ substr @ ss)"
  proof
    assume "\<exists>ps ss. b # s = ps @ substr @ ss"
    then obtain ps ss where eq: "b # s = ps @ substr @ ss" by blast
    show "(\<exists>ss. b # s = substr @ ss) \<or> (\<exists>ps ss. s = ps @ substr @ ss)"
    proof (cases ps)
      case Nil
      with eq show ?thesis by auto
    next
      case (Cons p ps')
      with eq have "s = ps' @ substr @ ss" by simp
      then show ?thesis by blast
    qed
  next
    assume "(\<exists>ss. b # s = substr @ ss) \<or> (\<exists>ps ss. s = ps @ substr @ ss)"
    then show "\<exists>ps ss. b # s = ps @ substr @ ss"
    proof
      assume "\<exists>ss. b # s = substr @ ss"
      then obtain ss where "b # s = [] @ substr @ ss" by auto
      then show ?thesis by blast
    next
      assume "\<exists>ps ss. s = ps @ substr @ ss"
      then obtain ps ss where "b # s = (b # ps) @ substr @ ss" by auto
      then show ?thesis by blast
    qed
  qed
  with Cons show ?case by (simp add: strings_HasPrefix_iff)
qed

text \<open>
  What \<open>errors.Is\<close> finds below a value, it finds from the value: the first
  pass of the loop already decides what every later pass could.
\<close>

lemma errors_Is_Unwrap:
  "errors_Unwrap e = Some e' \<Longrightarrow> errors_Is e' target \<Longrightarrow> errors_Is e target"
  by (cases e) auto

lemma unwrapLoop_Some:
  "unwrapLoop (Some e) =
     (if errors_Is e context_Canceled
        then Some (status_Error Canceled ''request was canceled'')
      else if errors_Is e context_DeadlineExceeded
        then Some (status_Error DeadlineExceeded ''request deadline exceeded'')
      else None)"
proof (induction e)
  case (Wrap m e)
  then show ?case by auto
qed simp_all

lemma chain_errors_Is:
  "link \<in> set (chain (Some e)) \<Longrightarrow> errors_Is link target \<Longrightarrow> errors_Is e target"
  by (induction e) auto

lemma chain_contains_iff: "chain_contains e target \<longleftrightarrow> errors_Is e target"
proof
  assume "chain_contains e target"
  then obtain link where "link \<in> set (chain (Some e))" and "errors_Is link target"
    unfolding chain_contains_def list_ex_iff by blast
  then show "errors_Is e target" by (rule chain_errors_Is)
next
  assume "errors_Is e target"
  then show "chain_contains e target"
    by (simp add: chain_contains_def)
qed

text \<open>
  A link that is the sentinel itself is a link that compares equal to it.
\<close>

lemma sentinel_link_chain_contains:
  "Sentinel target \<in> set (chain (Some e)) \<Longrightarrow> chain_contains e target"
  unfolding chain_contains_def list_ex_iff
  by (rule bexI [of _ "Sentinel target"]) simp_all

subsection \<open>The three outcomes of the extractor\<close>

text \<open>
  Read off the tree: the extractor panics exactly when the top has no
  \<open>GRPCStatus\<close> method and the first value below it that has one returns a
  status without a protocol message. It reports not found exactly when no
  value of the tree has the method or the first that has it returns nil.
  Otherwise it reports a status as found.
\<close>

lemma status_FromError_panics_iff:
  "status_FromError (Some e) = Inl p \<longleftrightarrow>
     GRPCStatus_of e = NoGRPCStatus \<and> errors_As e = Some (Some EmptyStatus)"
  by (cases p)
     (auto simp: status_FromError_def split: grpcstatus.splits option.splits status.splits)

lemma without_status_iff:
  "without_status e \<longleftrightarrow> errors_As e = None \<or> errors_As e = Some None"
  by (cases e)
     (auto simp: without_status_def status_FromError_def
           split: grpcstatus.splits option.splits status.splits)

lemma carries_status_iff:
  "carries_status e \<longleftrightarrow>
     (\<exists>s. errors_As e = Some (Some s) \<and>
          \<not> (GRPCStatus_of e = NoGRPCStatus \<and> s = EmptyStatus))"
  by (cases e)
     (auto simp: carries_status_def status_FromError_def
           split: grpcstatus.splits option.splits status.splits)

lemma extractor_outcomes:
  "carries_status e \<or> without_status e \<or>
   status_FromError (Some e) = Inl NilPointerDereference"
  by (cases "status_FromError (Some e)")
     (auto simp: carries_status_def without_status_def intro: panic.exhaust)

lemma carries_not_without: "carries_status e \<Longrightarrow> \<not> without_status e"
  by (auto simp: carries_status_def without_status_def split: sum.splits)

lemma carries_status_FromError:
  "carries_status e \<Longrightarrow> \<exists>s. status_FromError (Some e) = Inr (Some s, True)"
  by (auto simp: carries_status_def status_FromError_def
           split: grpcstatus.splits option.splits status.splits)

lemma without_status_FromError:
  "without_status e \<Longrightarrow> \<exists>s. status_FromError (Some e) = Inr (s, False)"
  by (auto simp: without_status_def split: sum.splits)

lemma status_FromError_returns:
  "status_FromError (Some e) = Inr x \<Longrightarrow> carries_status e \<or> without_status e"
  by (cases x) (simp add: carries_status_def without_status_def)

text \<open>
  The same empty status at the top of the tree and below it: at the top the
  extractor hands it out as found, and the error is returned as it is with
  the code \<open>OK\<close>; one level down the extractor panics.
\<close>

lemma empty_status_at_top_and_below:
  "status_FromError (Some (Leaf (Methods ''no reply'' [] (Returns (Some EmptyStatus))))) =
     Inr (Some EmptyStatus, True) \<and>
   classify (Leaf (Methods ''no reply'' [] (Returns (Some EmptyStatus)))) = Some (OK, []) \<and>
   status_FromError
     (Some (Wrap (Methods ''hold seat'' [] NoGRPCStatus)
              (Leaf (Methods ''no reply'' [] (Returns (Some EmptyStatus)))))) =
     Inl NilPointerDereference"
  by (simp add: status_FromError_def classify_def convertToGRPCError_def)

text \<open>
  A wrapper without the method is without a status exactly when the wrapped
  error is.
\<close>

lemma without_status_Wrap:
  "GRPCStatus m = NoGRPCStatus \<Longrightarrow> without_status (Wrap m e) \<longleftrightarrow> without_status e"
  by (simp add: without_status_iff)

subsection \<open>Shape of the classifier's result\<close>

lemma status_FromError_status_Error:
  "status_Error c msg = Some r \<Longrightarrow>
     status_FromError (Some r) = Inr (Some (Status c msg), True)"
  by (auto simp: status_Error_def status_FromError_def split: if_splits)

lemma carries_status_status_Error: "status_Error c msg = Some r \<Longrightarrow> carries_status r"
  by (simp add: carries_status_def status_FromError_status_Error)

lemma status_Error_not_nil: "c \<noteq> OK \<Longrightarrow> \<exists>r. status_Error c msg = Some r"
  by (simp add: status_Error_def)

lemma convertToGRPCError_passthrough:
  "carries_status e \<Longrightarrow> convertToGRPCError (Some e) = Inr (Some e)"
  by (auto simp: convertToGRPCError_def carries_status_def split: sum.splits)

lemma convertToGRPCError_panics_iff:
  "convertToGRPCError (Some e) = Inl p \<longleftrightarrow> status_FromError (Some e) = Inl p"
  by (cases p)
     (auto simp: convertToGRPCError_def Let_def split: sum.splits option.splits
           simp del: unwrapLoop.simps)

lemma convertToGRPCError_rule:
  assumes "without_status e"
  shows "\<exists>c msg. c \<in> set rule_codes \<and> convertToGRPCError (Some e) = Inr (status_Error c msg)"
proof -
  define from_rule :: "panic + error option \<Rightarrow> bool"
    where "from_rule x \<longleftrightarrow> (\<exists>c msg. c \<in> set rule_codes \<and> x = Inr (status_Error c msg))" for x
  have rule: "from_rule (Inr (status_Error c msg))" if "c \<in> set rule_codes" for c msg
    using that unfolding from_rule_def by blast
  have codes: "Canceled \<in> set rule_codes" "DeadlineExceeded \<in> set rule_codes"
    "Unavailable \<in> set rule_codes" "FailedPrecondition \<in> set rule_codes"
    "ResourceExhausted \<in> set rule_codes" "InvalidArgument \<in> set rule_codes"
    "Internal \<in> set rule_codes"
    by (simp_all add: rule_codes_def)
  from assms obtain s where "status_FromError (Some e) = Inr (s, False)"
    using without_status_FromError by blast
  then have "from_rule (convertToGRPCError (Some e))"
    unfolding convertToGRPCError_def
    by (simp add: unwrapLoop_Some Let_def rule codes del: unwrapLoop.simps)
  then show ?thesis unfolding from_rule_def .
qed

subsection \<open>Consequences used by the claims\<close>

text \<open>
  From here on the loop is used through \<open>unwrapLoop_Some\<close> only.
\<close>

declare unwrapLoop.simps [simp del]

text \<open>
  A nil argument is reported as found by the extractor and returned as it is,
  so the call \<open>err.Error()\<close> is never reached with nil.
\<close>

lemma convertToGRPCError_nil: "convertToGRPCError None = Inr None"
  by (simp add: convertToGRPCError_def status_FromError_def)

lemma classify_status_Error:
  assumes "convertToGRPCError (Some e) = Inr (status_Error c msg)" and "c \<noteq> OK"
  shows "classify e = Some (c, msg)"
proof -
  from \<open>c \<noteq> OK\<close> obtain r where r: "status_Error c msg = Some r"
    using status_Error_not_nil by blast
  then have "status_FromError (Some r) = Inr (Some (Status c msg), True)"
    by (rule status_FromError_status_Error)
  with assms r show ?thesis by (simp add: classify_def)
qed

lemma classify_passthrough:
  assumes "status_FromError (Some e) = Inr (Some s, True)"
  shows "classify e = Some (Code s, Message s)"
  using assms by (simp add: classify_def convertToGRPCError_def)

text \<open>What the classifier returns for a non-nil error is never nil.\<close>

lemma convertToGRPCError_not_nil:
  assumes "convertToGRPCError (Some e) = Inr r"
  shows "\<exists>x. r = Some x"
proof -
  have "status_FromError (Some e) \<noteq> Inl NilPointerDereference"
    using assms convertToGRPCError_panics_iff [of e NilPointerDereference] by simp
  then consider "carries_status e" | "without_status e"
    using extractor_outcomes by blast
  then show ?thesis
  proof cases
    case 1
    with assms show ?thesis by (auto simp: convertToGRPCError_passthrough)
  next
    case 2
    then obtain c msg where c: "c \<in> set rule_codes"
      and conv: "convertToGRPCError (Some e) = Inr (status_Error c msg)"
      using convertToGRPCError_rule by blast
    from c have "c \<noteq> OK" by (auto simp: rule_codes_def)
    then obtain x where "status_Error c msg = Some x"
      using status_Error_not_nil by blast
    with conv assms show ?thesis by simp
  qed
qed

lemma no_sentinel_falls_through:
  assumes "without_status e"
    and "\<not> chain_contains e context_Canceled"
    and "\<not> chain_contains e context_DeadlineExceeded"
  shows "unwrapLoop (Some e) = None \<and> (\<exists>s. status_FromError (Some e) = Inr (s, False))"
  using assms without_status_FromError [of e] unfolding chain_contains_iff
  by (simp add: unwrapLoop_Some)

text \<open>
  Classification is idempotent: what it returns, it returns unchanged when
  applied again.
\<close>

lemma convertToGRPCError_idempotent:
  assumes "convertToGRPCError (Some e) = Inr r"
  shows "convertToGRPCError r = Inr r"
proof -
  have "status_FromError (Some e) \<noteq> Inl NilPointerDereference"
    using assms convertToGRPCError_panics_iff [of e NilPointerDereference] by simp
  then consider "carries_status e" | "without_status e"
    using extractor_outcomes by blast
  then show ?thesis
  proof cases
    case 1
    then have "convertToGRPCError (Some e) = Inr (Some e)"
      by (rule convertToGRPCError_passthrough)
    with assms show ?thesis by auto
  next
    case 2
    then obtain c msg where "convertToGRPCError (Some e) = Inr (status_Error c msg)"
      using convertToGRPCError_rule by blast
    with assms have r: "r = status_Error c msg" by simp
    show ?thesis
    proof (cases r)
      case None
      then show ?thesis by (simp add: convertToGRPCError_nil)
    next
      case (Some x)
      with r have "status_Error c msg = Some x" by simp
      then have "carries_status x"
        by (rule carries_status_status_Error)
      with Some show ?thesis by (simp add: convertToGRPCError_passthrough)
    qed
  qed
qed

section \<open>The claims of the specification\<close>

text \<open>
  Claim C1. A non-nil error that already carries or derives from a gRPC status
  object is returned by the classifier as it is: the same error value, hence
  the same code and message, and no rule is applied to it.
\<close>

theorem classified_error_unchanged:
  assumes "carries_status e"
  shows "convertToGRPCError (Some e) = Inr (Some e) \<and>
         (\<exists>s. status_FromError (Some e) = Inr (Some s, True) \<and>
              classify e = Some (Code s, Message s))"
proof -
  from assms obtain s where "status_FromError (Some e) = Inr (Some s, True)"
    using carries_status_FromError by blast
  then show ?thesis
    using assms by (simp add: convertToGRPCError_passthrough classify_passthrough)
qed

text \<open>
  Claim C1 at two inputs: a status error with the code \<open>FailedPrecondition\<close>,
  and an error that wraps it. Both come back unchanged; for the wrapper the
  extractor reads the wrapped code and the wrapper's own text.
\<close>

theorem classified_error_unchanged_witness:
  "carries_status
     (Leaf (Methods ''rpc error: code = FailedPrecondition desc = booking already expired'' []
        (Returns (Some (Status FailedPrecondition ''booking already expired''))))) \<and>
   convertToGRPCError
     (Some (Leaf (Methods ''rpc error: code = FailedPrecondition desc = booking already expired'' []
        (Returns (Some (Status FailedPrecondition ''booking already expired'')))))) =
     Inr (Some (Leaf (Methods ''rpc error: code = FailedPrecondition desc = booking already expired'' []
        (Returns (Some (Status FailedPrecondition ''booking already expired'')))))) \<and>
   classify
     (Leaf (Methods ''rpc error: code = FailedPrecondition desc = booking already expired'' []
        (Returns (Some (Status FailedPrecondition ''booking already expired''))))) =
     Some (FailedPrecondition, ''booking already expired'') \<and>
   carries_status
     (Wrap (Methods ''confirm booking: expired'' [] NoGRPCStatus)
        (Leaf (Methods ''rpc error: code = FailedPrecondition desc = booking already expired'' []
           (Returns (Some (Status FailedPrecondition ''booking already expired'')))))) \<and>
   classify
     (Wrap (Methods ''confirm booking: expired'' [] NoGRPCStatus)
        (Leaf (Methods ''rpc error: code = FailedPrecondition desc = booking already expired'' []
           (Returns (Some (Status FailedPrecondition ''booking already expired'')))))) =
     Some (FailedPrecondition, ''confirm booking: expired'')"
proof -
  let ?x = "Leaf (Methods ''rpc error: code = FailedPrecondition desc = booking already expired'' []
        (Returns (Some (Status FailedPrecondition ''booking already expired''))))"
  let ?w = "Wrap (Methods ''confirm booking: expired'' [] NoGRPCStatus) ?x"
  have x: "carries_status ?x" and w: "carries_status ?w"
    by (simp_all add: carries_status_def status_FromError_def)
  from classified_error_unchanged [OF x] classified_error_unchanged [OF w] x w
  show ?thesis by (auto simp: status_FromError_def)
qed

text \<open>
  Claim C2 as stated fails where the chain also matches the canceled sentinel.
  The input wraps \<open>context.DeadlineExceeded\<close> itself in a value whose \<open>Is\<close>
  method accepts \<open>context.Canceled\<close>; it carries no status and its chain
  contains the deadline-exceeded sentinel, yet the first test of the loop
  succeeds and the result is \<open>Canceled\<close>.
\<close>

theorem deadline_chain_with_canceled_counterexample:
  "without_status
       (Wrap (Methods ''lookup aborted'' [context_Canceled] NoGRPCStatus)
          (Sentinel context_DeadlineExceeded)) \<and>
   Sentinel context_DeadlineExceeded \<in>
     set (chain (Some (Wrap (Methods ''lookup aborted'' [context_Canceled] NoGRPCStatus)
                         (Sentinel context_DeadlineExceeded)))) \<and>
   chain_contains
       (Wrap (Methods ''lookup aborted'' [context_Canceled] NoGRPCStatus)
          (Sentinel context_DeadlineExceeded)) context_DeadlineExceeded \<and>
   convertToGRPCError
       (Some (Wrap (Methods ''lookup aborted'' [context_Canceled] NoGRPCStatus)
                (Sentinel context_DeadlineExceeded))) =
     Inr (status_Error Canceled ''request was canceled'') \<and>
   classify
       (Wrap (Methods ''lookup aborted'' [context_Canceled] NoGRPCStatus)
          (Sentinel context_DeadlineExceeded)) \<noteq>
     Some (DeadlineExceeded, ''request deadline exceeded'')"
  by (simp add: without_status_def status_FromError_def chain_contains_def
        convertToGRPCError_def unwrapLoop_Some classify_def status_Error_def)

text \<open>
  Claim C2, amended. A non-nil error that carries no status object, whose
  unwrap chain contains the deadline-exceeded sentinel and does not contain the
  operation-canceled sentinel, is classified as \<open>DeadlineExceeded\<close> with the
  message "request deadline exceeded", whatever its text is: the chain walk
  comes before the text rules.
\<close>

theorem deadline_chain_before_text:
  assumes "without_status e"
    and "chain_contains e context_DeadlineExceeded"
    and "\<not> chain_contains e context_Canceled"
  shows "convertToGRPCError (Some e) =
           Inr (status_Error DeadlineExceeded ''request deadline exceeded'') \<and>
         classify e = Some (DeadlineExceeded, ''request deadline exceeded'')"
proof -
  have "convertToGRPCError (Some e) =
          Inr (status_Error DeadlineExceeded ''request deadline exceeded'')"
    using assms without_status_FromError [of e]
    unfolding convertToGRPCError_def chain_contains_iff
    by (auto simp: unwrapLoop_Some)
  then show ?thesis by (simp add: classify_status_Error)
qed

text \<open>
  Claim C2, amended, at a wrapper of \<open>context.DeadlineExceeded\<close> whose text
  contains none of the thirteen substrings.
\<close>

theorem deadline_chain_before_text_witness:
  "without_status
       (Wrap (Methods ''load booking: query aborted'' [] NoGRPCStatus)
          (Sentinel context_DeadlineExceeded)) \<and>
   chain_contains
       (Wrap (Methods ''load booking: query aborted'' [] NoGRPCStatus)
          (Sentinel context_DeadlineExceeded)) context_DeadlineExceeded \<and>
   \<not> chain_contains
       (Wrap (Methods ''load booking: query aborted'' [] NoGRPCStatus)
          (Sentinel context_DeadlineExceeded)) context_Canceled \<and>
   \<not> contains_any ''load booking: query aborted'' listed_substrings \<and>
   classify
       (Wrap (Methods ''load booking: query aborted'' [] NoGRPCStatus)
          (Sentinel context_DeadlineExceeded)) =
     Some (DeadlineExceeded, ''request deadline exceeded'')"
proof -
  let ?e = "Wrap (Methods ''load booking: query aborted'' [] NoGRPCStatus)
              (Sentinel context_DeadlineExceeded)"
  have h1: "without_status ?e"
    by (simp add: without_status_def status_FromError_def)
  have h2: "chain_contains ?e context_DeadlineExceeded"
    by (simp add: chain_contains_def)
  have h3: "\<not> chain_contains ?e context_Canceled"
    by (simp add: chain_contains_def)
  have h4: "\<not> contains_any ''load booking: query aborted'' listed_substrings"
    by (simp add: contains_any_def listed_substrings_def substrings_before_uuid_def)
  from deadline_chain_before_text [OF h1 h2 h3] h1 h2 h3 h4 show ?thesis by simp
qed

text \<open>
  Claim C3. A non-nil error without a status object and without either
  context sentinel in its chain, whose text contains both "context canceled"
  and "connection refused", is classified as \<open>Canceled\<close> with the message
  "request was canceled": the first text rule wins.
\<close>

theorem canceled_text_before_connection_refused:
  assumes "without_status e"
    and "\<not> chain_contains e context_Canceled"
    and "\<not> chain_contains e context_DeadlineExceeded"
    and "strings_Contains (Error_text e) ''context canceled''"
    and "strings_Contains (Error_text e) ''connection refused''"
  shows "convertToGRPCError (Some e) =
           Inr (status_Error Canceled ''request was canceled'') \<and>
         classify e = Some (Canceled, ''request was canceled'')"
proof -
  have "convertToGRPCError (Some e) = Inr (status_Error Canceled ''request was canceled'')"
    using no_sentinel_falls_through [OF assms(1-3)] assms(4)
    unfolding convertToGRPCError_def by (auto simp: Let_def)
  then show ?thesis by (simp add: classify_status_Error)
qed

text \<open>
  Claim C3 at a text with "connection refused" before "context canceled".
\<close>

theorem canceled_text_before_connection_refused_witness:
  "without_status
       (Leaf (Methods ''dial tcp 10.0.0.5:5432: connection refused: context canceled'' []
          NoGRPCStatus)) \<and>
   \<not> chain_contains
       (Leaf (Methods ''dial tcp 10.0.0.5:5432: connection refused: context canceled'' []
          NoGRPCStatus)) context_Canceled \<and>
   \<not> chain_contains
       (Leaf (Methods ''dial tcp 10.0.0.5:5432: connection refused: context canceled'' []
          NoGRPCStatus)) context_DeadlineExceeded \<and>
   strings_Contains ''dial tcp 10.0.0.5:5432: connection refused: context canceled''
     ''context canceled'' \<and>
   strings_Contains ''dial tcp 10.0.0.5:5432: connection refused: context canceled''
     ''connection refused'' \<and>
   classify
       (Leaf (Methods ''dial tcp 10.0.0.5:5432: connection refused: context canceled'' []
          NoGRPCStatus)) =
     Some (Canceled, ''request was canceled'')"
proof -
  let ?e = "Leaf (Methods ''dial tcp 10.0.0.5:5432: connection refused: context canceled'' []
              NoGRPCStatus)"
  have h1: "without_status ?e"
    by (simp add: without_status_def status_FromError_def)
  have h2: "\<not> chain_contains ?e context_Canceled"
    by (simp add: chain_contains_def)
  have h3: "\<not> chain_contains ?e context_DeadlineExceeded"
    by (simp add: chain_contains_def)
  have h4: "strings_Contains (Error_text ?e) ''context canceled''"
    by simp
  have h5: "strings_Contains (Error_text ?e) ''connection refused''"
    by simp
  from canceled_text_before_connection_refused [OF h1 h2 h3 h4 h5] h1 h2 h3 h4 h5
  show ?thesis by simp
qed

text \<open>
  Claim C4. A non-nil error without a status object, without either context
  sentinel in its chain and whose text contains none of the thirteen
  substrings is classified as \<open>Internal\<close>, with the text of the error as the
  message.
\<close>

theorem default_internal_verbatim:
  assumes "without_status e"
    and "\<not> chain_contains e context_Canceled"
    and "\<not> chain_contains e context_DeadlineExceeded"
    and "\<not> contains_any (Error_text e) listed_substrings"
  shows "convertToGRPCError (Some e) = Inr (status_Error Internal (Error_text e)) \<and>
         classify e = Some (Internal, Error_text e)"
proof -
  have "convertToGRPCError (Some e) = Inr (status_Error Internal (Error_text e))"
    using no_sentinel_falls_through [OF assms(1-3)] assms(4)
    unfolding convertToGRPCError_def contains_any_def listed_substrings_def
      substrings_before_uuid_def
    by (auto simp: Let_def)
  then show ?thesis by (simp add: classify_status_Error)
qed

text \<open>
  Claim C4 at the text "unexpected nil pointer at line 88".
\<close>

theorem default_internal_verbatim_witness:
  "without_status (Leaf (Methods ''unexpected nil pointer at line 88'' [] NoGRPCStatus)) \<and>
   \<not> chain_contains (Leaf (Methods ''unexpected nil pointer at line 88'' [] NoGRPCStatus))
       context_Canceled \<and>
   \<not> chain_contains (Leaf (Methods ''unexpected nil pointer at line 88'' [] NoGRPCStatus))
       context_DeadlineExceeded \<and>
   \<not> contains_any ''unexpected nil pointer at line 88'' listed_substrings \<and>
   classify (Leaf (Methods ''unexpected nil pointer at line 88'' [] NoGRPCStatus)) =
     Some (Internal, ''unexpected nil pointer at line 88'')"
proof -
  let ?e = "Leaf (Methods ''unexpected nil pointer at line 88'' [] NoGRPCStatus)"
  have h1: "without_status ?e"
    by (simp add: without_status_def status_FromError_def)
  have h2: "\<not> chain_contains ?e context_Canceled"
    by (simp add: chain_contains_def)
  have h3: "\<not> chain_contains ?e context_DeadlineExceeded"
    by (simp add: chain_contains_def)
  have h4: "\<not> contains_any (Error_text ?e) listed_substrings"
    by (simp add: contains_any_def listed_substrings_def substrings_before_uuid_def)
  from default_internal_verbatim [OF h1 h2 h3 h4] h1 h2 h3 h4 show ?thesis by simp
qed

text \<open>
  Claim C5. A non-nil error without a status object or context sentinel, whose
  text contains "invalid input syntax for type uuid" and none of the twelve
  substrings of the earlier rules, is classified as \<open>InvalidArgument\<close> with the
  constant message "invalid UUID format".
\<close>

theorem uuid_rule_fixed_message:
  assumes "without_status e"
    and "\<not> chain_contains e context_Canceled"
    and "\<not> chain_contains e context_DeadlineExceeded"
    and "strings_Contains (Error_text e) ''invalid input syntax for type uuid''"
    and "\<not> contains_any (Error_text e) substrings_before_uuid"
  shows "convertToGRPCError (Some e) =
           Inr (status_Error InvalidArgument ''invalid UUID format'') \<and>
         classify e = Some (InvalidArgument, ''invalid UUID format'')"
proof -
  have "convertToGRPCError (Some e) =
          Inr (status_Error InvalidArgument ''invalid UUID format'')"
    using no_sentinel_falls_through [OF assms(1-3)] assms(4,5)
    unfolding convertToGRPCError_def contains_any_def substrings_before_uuid_def
    by (auto simp: Let_def)
  then show ?thesis by (simp add: classify_status_Error)
qed

text \<open>
  Claim C5 at the text of a PostgreSQL driver error that quotes the rejected
  value (byte \<open>0x22\<close> is the double quote).
\<close>

theorem uuid_rule_fixed_message_witness:
  "without_status
       (Leaf (Methods (''pq: invalid input syntax for type uuid: '' @ [CHR 0x22] @ ''xyz'' @
                        [CHR 0x22]) [] NoGRPCStatus)) \<and>
   \<not> chain_contains
       (Leaf (Methods (''pq: invalid input syntax for type uuid: '' @ [CHR 0x22] @ ''xyz'' @
                        [CHR 0x22]) [] NoGRPCStatus)) context_Canceled \<and>
   \<not> chain_contains
       (Leaf (Methods (''pq: invalid input syntax for type uuid: '' @ [CHR 0x22] @ ''xyz'' @
                        [CHR 0x22]) [] NoGRPCStatus)) context_DeadlineExceeded \<and>
   strings_Contains
       (''pq: invalid input syntax for type uuid: '' @ [CHR 0x22] @ ''xyz'' @ [CHR 0x22])
       ''invalid input syntax for type uuid'' \<and>
   \<not> contains_any
       (''pq: invalid input syntax for type uuid: '' @ [CHR 0x22] @ ''xyz'' @ [CHR 0x22])
       substrings_before_uuid \<and>
   classify
       (Leaf (Methods (''pq: invalid input syntax for type uuid: '' @ [CHR 0x22] @ ''xyz'' @
                        [CHR 0x22]) [] NoGRPCStatus)) =
     Some (InvalidArgument, ''invalid UUID format'')"
proof -
  let ?e = "Leaf (Methods (''pq: invalid input syntax for type uuid: '' @ [CHR 0x22] @
                            ''xyz'' @ [CHR 0x22]) [] NoGRPCStatus)"
  have h1: "without_status ?e"
    by (simp add: without_status_def status_FromError_def)
  have h2: "\<not> chain_contains ?e context_Canceled"
    by (simp add: chain_contains_def)
  have h3: "\<not> chain_contains ?e context_DeadlineExceeded"
    by (simp add: chain_contains_def)
  have h4: "strings_Contains (Error_text ?e) ''invalid input syntax for type uuid''"
    by simp
  have h5: "\<not> contains_any (Error_text ?e) substrings_before_uuid"
    by (simp add: contains_any_def substrings_before_uuid_def)
  from uuid_rule_fixed_message [OF h1 h2 h3 h4 h5] h1 h2 h3 h4 h5 show ?thesis by simp
qed

text \<open>
  Claim C6 as stated fails where the extractor panics. The input is a wrapper
  without a \<open>GRPCStatus\<close> method around a value whose \<open>GRPCStatus\<close> returns
  \<open>&status.Status{}\<close>: \<open>status.FromError\<close> finds that status with
  \<open>errors.As\<close>, gets nil from its \<open>Proto()\<close> and panics on the assignment
  to \<open>p.Message\<close>, so line 121 panics and no pair is produced.
\<close>

theorem wrapped_empty_status_panics_counterexample:
  "convertToGRPCError
     (Some (Wrap (Methods ''reserve seat: upstream failed'' [] NoGRPCStatus)
              (Leaf (Methods ''upstream failed'' [] (Returns (Some EmptyStatus)))))) =
     Inl NilPointerDereference \<and>
   classify
     (Wrap (Methods ''reserve seat: upstream failed'' [] NoGRPCStatus)
        (Leaf (Methods ''upstream failed'' [] (Returns (Some EmptyStatus))))) = None"
  by (simp add: convertToGRPCError_def status_FromError_def classify_def)

text \<open>
  Claim C6, amended. For every non-nil input on which \<open>status.FromError\<close>
  returns, classification does not panic, returns an error that is not nil,
  and that error yields a code and a message. On an input on which
  \<open>status.FromError\<close> panics, classification panics with it and yields no
  pair.
\<close>

theorem classification_total_where_extractor_returns:
  "(status_FromError (Some e) = Inr x \<longrightarrow>
      (\<exists>r c msg. convertToGRPCError (Some e) = Inr (Some r) \<and>
                  classify e = Some (c, msg))) \<and>
   (status_FromError (Some e) = Inl p \<longrightarrow>
      convertToGRPCError (Some e) = Inl p \<and> classify e = None)"
proof (intro conjI impI)
  assume "status_FromError (Some e) = Inr x"
  then consider "carries_status e" | "without_status e"
    using status_FromError_returns by blast
  then show "\<exists>r c msg. convertToGRPCError (Some e) = Inr (Some r) \<and>
                       classify e = Some (c, msg)"
  proof cases
    case 1
    then obtain s where "status_FromError (Some e) = Inr (Some s, True)"
      using carries_status_FromError by blast
    with 1 show ?thesis
      by (simp add: convertToGRPCError_passthrough classify_passthrough)
  next
    case 2
    then obtain c msg where c: "c \<in> set rule_codes"
      and conv: "convertToGRPCError (Some e) = Inr (status_Error c msg)"
      using convertToGRPCError_rule by blast
    from c have ok: "c \<noteq> OK" by (auto simp: rule_codes_def)
    then obtain r where "status_Error c msg = Some r"
      using status_Error_not_nil by blast
    moreover from conv ok have "classify e = Some (c, msg)"
      by (rule classify_status_Error)
    ultimately show ?thesis using conv by simp
  qed
next
  assume "status_FromError (Some e) = Inl p"
  then show "convertToGRPCError (Some e) = Inl p"
    by (simp add: convertToGRPCError_panics_iff)
next
  assume "status_FromError (Some e) = Inl p"
  then have "convertToGRPCError (Some e) = Inl p"
    by (simp add: convertToGRPCError_panics_iff)
  then show "classify e = None"
    by (simp add: classify_def)
qed

text \<open>
  Claim C6, amended, at a joined error whose own \<open>GRPCStatus\<close> method returns
  nil, on which the extractor returns not found, and at a wrapper around a
  status without a protocol message, on which it panics.
\<close>

theorem classification_total_where_extractor_returns_witness:
  "status_FromError
     (Some (Join (Methods ''cleanup failed'' [] (Returns None))
              [Leaf (Methods ''broken pipe'' [] NoGRPCStatus)])) =
     Inr (Some (Status Unknown ''cleanup failed''), False) \<and>
   (\<exists>r c msg.
      convertToGRPCError
        (Some (Join (Methods ''cleanup failed'' [] (Returns None))
                 [Leaf (Methods ''broken pipe'' [] NoGRPCStatus)])) = Inr (Some r) \<and>
      classify
        (Join (Methods ''cleanup failed'' [] (Returns None))
           [Leaf (Methods ''broken pipe'' [] NoGRPCStatus)]) = Some (c, msg)) \<and>
   status_FromError
     (Some (Wrap (Methods ''hold seat'' [] NoGRPCStatus)
              (Leaf (Methods ''no reply'' [] (Returns (Some EmptyStatus)))))) =
     Inl NilPointerDereference \<and>
   convertToGRPCError
     (Some (Wrap (Methods ''hold seat'' [] NoGRPCStatus)
              (Leaf (Methods ''no reply'' [] (Returns (Some EmptyStatus)))))) =
     Inl NilPointerDereference"
proof -
  let ?j = "Join (Methods ''cleanup failed'' [] (Returns None))
              [Leaf (Methods ''broken pipe'' [] NoGRPCStatus)]"
  let ?w = "Wrap (Methods ''hold seat'' [] NoGRPCStatus)
              (Leaf (Methods ''no reply'' [] (Returns (Some EmptyStatus))))"
  have j: "status_FromError (Some ?j) = Inr (Some (Status Unknown ''cleanup failed''), False)"
    by (simp add: status_FromError_def)
  have w: "status_FromError (Some ?w) = Inl NilPointerDereference"
    by (simp add: status_FromError_def)
  from classification_total_where_extractor_returns
         [of ?j "(Some (Status Unknown ''cleanup failed''), False)"] j
  have "\<exists>r c msg. convertToGRPCError (Some ?j) = Inr (Some r) \<and>
                   classify ?j = Some (c, msg)"
    by blast
  moreover from classification_total_where_extractor_returns
                  [of ?w _ NilPointerDereference] w
  have "convertToGRPCError (Some ?w) = Inl NilPointerDereference"
    by blast
  ultimately show ?thesis using j w by blast
qed

text \<open>
  Claim C7 as stated fails on the passthrough: the status error that
  \<open>status.Error(codes.NotFound, "booking not found")\<close> builds is returned as
  it is, and \<open>NotFound\<close> is none of the seven codes.
\<close>

theorem passthrough_code_outside_rule_codes_counterexample:
  "status_Error NotFound ''booking not found'' =
     Some (Leaf (Methods ''rpc error: code = NotFound desc = booking not found'' []
             (Returns (Some (Status NotFound ''booking not found''))))) \<and>
   convertToGRPCError
     (Some (Leaf (Methods ''rpc error: code = NotFound desc = booking not found'' []
             (Returns (Some (Status NotFound ''booking not found'')))))) =
     Inr (Some (Leaf (Methods ''rpc error: code = NotFound desc = booking not found'' []
             (Returns (Some (Status NotFound ''booking not found'')))))) \<and>
   classify
     (Leaf (Methods ''rpc error: code = NotFound desc = booking not found'' []
        (Returns (Some (Status NotFound ''booking not found''))))) =
     Some (NotFound, ''booking not found'') \<and>
   NotFound \<notin> set rule_codes"
  by (simp add: status_Error_def convertToGRPCError_def status_FromError_def classify_def
        rule_codes_def)

text \<open>
  Claim C7, amended. For every non-nil input that does not already carry a
  status object, the code produced is one of \<open>Canceled\<close>, \<open>DeadlineExceeded\<close>,
  \<open>InvalidArgument\<close>, \<open>FailedPrecondition\<close>, \<open>ResourceExhausted\<close>,
  \<open>Unavailable\<close> and \<open>Internal\<close>, and so never \<open>OK\<close>; an input that
  already carries a status object is returned unchanged and keeps the code it
  carries, whichever that is.
\<close>

theorem rule_codes_complete:
  "(without_status e \<longrightarrow>
      (\<exists>c msg. classify e = Some (c, msg) \<and> c \<in> set rule_codes \<and> c \<noteq> OK)) \<and>
   (carries_status e \<longrightarrow>
      (\<exists>s. status_FromError (Some e) = Inr (Some s, True) \<and>
           convertToGRPCError (Some e) = Inr (Some e) \<and>
           classify e = Some (Code s, Message s)))"
proof (intro conjI impI)
  assume "without_status e"
  then obtain c msg where c: "c \<in> set rule_codes"
    and conv: "convertToGRPCError (Some e) = Inr (status_Error c msg)"
    using convertToGRPCError_rule by blast
  from c have ok: "c \<noteq> OK" by (auto simp: rule_codes_def)
  with conv have "classify e = Some (c, msg)" by (rule classify_status_Error)
  with c ok show "\<exists>c msg. classify e = Some (c, msg) \<and> c \<in> set rule_codes \<and> c \<noteq> OK"
    by blast
next
  assume carries: "carries_status e"
  then obtain s where "status_FromError (Some e) = Inr (Some s, True)"
    using carries_status_FromError by blast
  with carries show "\<exists>s. status_FromError (Some e) = Inr (Some s, True) \<and>
           convertToGRPCError (Some e) = Inr (Some e) \<and>
           classify e = Some (Code s, Message s)"
    by (simp add: convertToGRPCError_passthrough classify_passthrough)
qed

text \<open>
  Claim C7, amended, at an error without a status (a sold-out message) and at
  a status error with the code \<open>Aborted\<close>.
\<close>

theorem rule_codes_complete_witness:
  "without_status (Leaf (Methods ''economy class is sold out for flight 42'' []
                          NoGRPCStatus)) \<and>
   classify (Leaf (Methods ''economy class is sold out for flight 42'' [] NoGRPCStatus)) =
     Some (ResourceExhausted, ''seats are not available'') \<and>
   ResourceExhausted \<in> set rule_codes \<and>
   carries_status
     (Leaf (Methods ''rpc error: code = Aborted desc = seat map changed'' []
        (Returns (Some (Status Aborted ''seat map changed''))))) \<and>
   classify
     (Leaf (Methods ''rpc error: code = Aborted desc = seat map changed'' []
        (Returns (Some (Status Aborted ''seat map changed''))))) =
     Some (Aborted, ''seat map changed'')"
proof -
  let ?a = "Leaf (Methods ''economy class is sold out for flight 42'' [] NoGRPCStatus)"
  let ?b = "Leaf (Methods ''rpc error: code = Aborted desc = seat map changed'' []
              (Returns (Some (Status Aborted ''seat map changed''))))"
  have a: "without_status ?a"
    by (simp add: without_status_def status_FromError_def)
  have b: "carries_status ?b"
    by (simp add: carries_status_def status_FromError_def)
  have conv: "convertToGRPCError (Some ?a) =
                Inr (status_Error ResourceExhausted ''seats are not available'')"
    by (simp add: convertToGRPCError_def status_FromError_def unwrapLoop_Some)
  have codes: "ResourceExhausted \<in> set rule_codes"
    by (simp add: rule_codes_def)
  from rule_codes_complete [of ?a] a obtain c msg
    where "classify ?a = Some (c, msg)" and "c \<in> set rule_codes" by blast
  moreover have "classify ?a = Some (ResourceExhausted, ''seats are not available'')"
    using conv by (simp add: classify_def status_Error_def status_FromError_def)
  moreover from rule_codes_complete [of ?b] b
  have "classify ?b = Some (Aborted, ''seat map changed'')"
    by (auto simp: status_FromError_def)
  ultimately show ?thesis using a b codes by simp
qed

text \<open>
  Claim C8. A non-nil error whose text is empty, which carries no status
  object and has no context sentinel in its chain, is classified as
  \<open>Internal\<close> with the empty message.
\<close>

theorem empty_message_internal:
  assumes "Error_text e = []"
    and "without_status e"
    and "\<not> chain_contains e context_Canceled"
    and "\<not> chain_contains e context_DeadlineExceeded"
  shows "convertToGRPCError (Some e) = Inr (status_Error Internal []) \<and>
         classify e = Some (Internal, [])"
proof -
  have "convertToGRPCError (Some e) = Inr (status_Error Internal [])"
    using no_sentinel_falls_through [OF assms(2-4)] assms(1)
    unfolding convertToGRPCError_def by (auto simp: Let_def)
  then show ?thesis by (simp add: classify_status_Error)
qed

text \<open>
  Claim C8 at an error value with the empty text.
\<close>

theorem empty_message_internal_witness:
  "Error_text (Leaf (Methods [] [] NoGRPCStatus)) = [] \<and>
   without_status (Leaf (Methods [] [] NoGRPCStatus)) \<and>
   \<not> chain_contains (Leaf (Methods [] [] NoGRPCStatus)) context_Canceled \<and>
   \<not> chain_contains (Leaf (Methods [] [] NoGRPCStatus)) context_DeadlineExceeded \<and>
   classify (Leaf (Methods [] [] NoGRPCStatus)) = Some (Internal, [])"
proof -
  let ?e = "Leaf (Methods [] [] NoGRPCStatus)"
  have h0: "Error_text ?e = []"
    by simp
  have h1: "without_status ?e"
    by (simp add: without_status_def status_FromError_def)
  have h2: "\<not> chain_contains ?e context_Canceled"
    by (simp add: chain_contains_def)
  have h3: "\<not> chain_contains ?e context_DeadlineExceeded"
    by (simp add: chain_contains_def)
  from empty_message_internal [OF h0 h1 h2 h3] h0 h1 h2 h3 show ?thesis by simp
qed

text \<open>
  Claim C9. A non-nil error without a status object whose unwrap chain
  contains both the operation-canceled and the deadline-exceeded sentinel is
  classified as \<open>Canceled\<close> with the message "request was canceled", at
  whatever depths the two are found.
\<close>

theorem canceled_before_deadline:
  assumes "without_status e"
    and "chain_contains e context_Canceled"
    and "chain_contains e context_DeadlineExceeded"
  shows "convertToGRPCError (Some e) =
           Inr (status_Error Canceled ''request was canceled'') \<and>
         classify e = Some (Canceled, ''request was canceled'')"
proof -
  have "convertToGRPCError (Some e) = Inr (status_Error Canceled ''request was canceled'')"
    using assms without_status_FromError [of e]
    unfolding convertToGRPCError_def chain_contains_iff
    by (auto simp: unwrapLoop_Some)
  then show ?thesis by (simp add: classify_status_Error)
qed

text \<open>
  Claim C9 at a chain that matches deadline-exceeded at its head and holds
  \<open>context.Canceled\<close> two levels below.
\<close>

theorem canceled_before_deadline_witness:
  "without_status
       (Wrap (Methods ''read timed out'' [context_DeadlineExceeded] NoGRPCStatus)
          (Wrap (Methods ''stream closed'' [] NoGRPCStatus) (Sentinel context_Canceled))) \<and>
   chain_contains
       (Wrap (Methods ''read timed out'' [context_DeadlineExceeded] NoGRPCStatus)
          (Wrap (Methods ''stream closed'' [] NoGRPCStatus) (Sentinel context_Canceled)))
       context_Canceled \<and>
   chain_contains
       (Wrap (Methods ''read timed out'' [context_DeadlineExceeded] NoGRPCStatus)
          (Wrap (Methods ''stream closed'' [] NoGRPCStatus) (Sentinel context_Canceled)))
       context_DeadlineExceeded \<and>
   classify
       (Wrap (Methods ''read timed out'' [context_DeadlineExceeded] NoGRPCStatus)
          (Wrap (Methods ''stream closed'' [] NoGRPCStatus) (Sentinel context_Canceled))) =
     Some (Canceled, ''request was canceled'')"
proof -
  let ?e = "Wrap (Methods ''read timed out'' [context_DeadlineExceeded] NoGRPCStatus)
              (Wrap (Methods ''stream closed'' [] NoGRPCStatus) (Sentinel context_Canceled))"
  have h1: "without_status ?e"
    by (simp add: without_status_def status_FromError_def)
  have h2: "chain_contains ?e context_Canceled"
    by (simp add: chain_contains_def)
  have h3: "chain_contains ?e context_DeadlineExceeded"
    by (simp add: chain_contains_def)
  from canceled_before_deadline [OF h1 h2 h3] h1 h2 h3 show ?thesis by simp
qed

text \<open>
  Claim C10. When the handler returns a nil error, the unary error
  interceptor returns the handler's response and a nil error; when the handler
  returns a non-nil error, it returns a nil response and the classified error,
  which is not nil, whatever response the handler produced. Where the
  classifier panics there is no classified error, and the interceptor panics
  with it.
\<close>

theorem interceptor_paths:
  "(handler ctx req = (resp, None) \<longrightarrow>
      UnaryServerErrorInterceptor ctx req info handler = Inr (resp, None)) \<and>
   (handler ctx req = (resp, Some e) \<longrightarrow>
    convertToGRPCError (Some e) = Inr converted \<longrightarrow>
      converted \<noteq> None \<and>
      UnaryServerErrorInterceptor ctx req info handler = Inr (None, converted)) \<and>
   (handler ctx req = (resp, Some e) \<longrightarrow>
    convertToGRPCError (Some e) = Inl p \<longrightarrow>
      UnaryServerErrorInterceptor ctx req info handler = Inl p)"
proof (intro conjI impI)
  assume "handler ctx req = (resp, None)"
  then show "UnaryServerErrorInterceptor ctx req info handler = Inr (resp, None)"
    by (simp add: UnaryServerErrorInterceptor_def)
next
  assume conv: "convertToGRPCError (Some e) = Inr converted"
  then show "converted \<noteq> None"
    using convertToGRPCError_not_nil by blast
next
  assume "handler ctx req = (resp, Some e)"
    and "convertToGRPCError (Some e) = Inr converted"
  then show "UnaryServerErrorInterceptor ctx req info handler = Inr (None, converted)"
    by (simp add: UnaryServerErrorInterceptor_def)
next
  assume "handler ctx req = (resp, Some e)"
    and "convertToGRPCError (Some e) = Inl p"
  then show "UnaryServerErrorInterceptor ctx req info handler = Inl p"
    by (simp add: UnaryServerErrorInterceptor_def)
qed

text \<open>
  Claim C10 at a handler that succeeds and at one that fails with a response.
\<close>

theorem interceptor_paths_witness:
  "UnaryServerErrorInterceptor () (41::nat) ()
       (\<lambda>ctx req. (Some (Suc req), None)) = Inr (Some 42, None) \<and>
   UnaryServerErrorInterceptor () (41::nat) ()
       (\<lambda>ctx req. (Some (Suc req),
                    Some (Leaf (Methods ''no seat available in row 4'' [] NoGRPCStatus)))) =
     Inr (None, status_Error ResourceExhausted ''seats are not available'') \<and>
   status_Error ResourceExhausted ''seats are not available'' \<noteq> None"
proof -
  let ?ok = "\<lambda>(ctx::unit) (req::nat). (Some (Suc req), None :: error option)"
  let ?e = "Leaf (Methods ''no seat available in row 4'' [] NoGRPCStatus)"
  let ?failing = "\<lambda>(ctx::unit) (req::nat). (Some (Suc req), Some ?e)"
  let ?converted = "status_Error ResourceExhausted ''seats are not available''"
  have conv: "convertToGRPCError (Some ?e) = Inr ?converted"
    by (simp add: convertToGRPCError_def status_FromError_def unwrapLoop_Some)
  have "?ok () 41 = (Some 42, None)"
    by simp
  with interceptor_paths [of ?ok "()" 41 "Some 42" "()"]
  have first: "UnaryServerErrorInterceptor () (41::nat) () ?ok = Inr (Some 42, None)"
    by simp
  have "?failing () 41 = (Some 42, Some ?e)"
    by simp
  with interceptor_paths [of ?failing "()" 41 "Some 42" "()" ?e ?converted] conv
  have "?converted \<noteq> None \<and>
        UnaryServerErrorInterceptor () (41::nat) () ?failing = Inr (None, ?converted)"
    by blast
  with first show ?thesis by simp
qed

end
